theory Spec2Isabelle
  imports Complex_Main "HOL-Library.Log_Nat" "HOL-Library.Code_Target_Numeral"
begin

section \<open>The JavaScript values the two forms compute with\<close>

text \<open>
  The policy form (\<^verbatim>\<open>PolicyForm\<close>) and the login page (\<^verbatim>\<open>Login.jsx\<close>) keep every
  field as a string. A string is a list of code units; \<^typ>\<open>char\<close> covers the code units
  below 256, and \<open>length\<close> is JavaScript's \<^verbatim>\<open>.length\<close> on them.

  A number is an IEEE double. The source only converts strings to numbers, tests
  \<^verbatim>\<open>isNaN\<close> and compares, so a double is modelled by the exact rational it denotes, with
  the three special values apart. Negative zero is identified with zero: no operator of
  the source tells them apart.
\<close>

datatype jsnum = NaN | PosInf | NegInf | Fin rat

definition isNaN :: "jsnum \<Rightarrow> bool" where
  "isNaN x \<longleftrightarrow> x = NaN"

text \<open>\<^verbatim>\<open>a > b\<close> and \<^verbatim>\<open>a <= b\<close> on numbers: every comparison with \<^verbatim>\<open>NaN\<close> is false.\<close>

fun js_less :: "jsnum \<Rightarrow> jsnum \<Rightarrow> bool" where
  "js_less NaN _ = False"
| "js_less _ NaN = False"
| "js_less (Fin a) (Fin b) = (a < b)"
| "js_less NegInf NegInf = False"
| "js_less NegInf _ = True"
| "js_less _ NegInf = False"
| "js_less PosInf _ = False"
| "js_less _ PosInf = True"

definition js_gt :: "jsnum \<Rightarrow> jsnum \<Rightarrow> bool" where
  "js_gt a b = js_less b a"

definition js_le :: "jsnum \<Rightarrow> jsnum \<Rightarrow> bool" where
  "js_le a b \<longleftrightarrow> \<not> isNaN a \<and> \<not> isNaN b \<and> \<not> js_less b a"

definition isFinite :: "jsnum \<Rightarrow> bool" where
  "isFinite x = (case x of Fin _ \<Rightarrow> True | _ \<Rightarrow> False)"

subsection \<open>Rounding a rational to the nearest double\<close>

definition pow2 :: "int \<Rightarrow> rat" where
  "pow2 e = (if 0 \<le> e then 2 ^ nat e else 1 / 2 ^ nat (- e))"

definition pow10 :: "int \<Rightarrow> rat" where
  "pow10 e = (if 0 \<le> e then 10 ^ nat e else 1 / 10 ^ nat (- e))"

text \<open>The exponent \<open>e\<close> with \<open>2 ^ e \<le> q < 2 ^ (e + 1)\<close>, for \<open>q > 0\<close>.\<close>

definition binaryExponent :: "rat \<Rightarrow> int" where
  "binaryExponent q =
     (let (n, d) = quotient_of q;
          e0 = int (floorlog 2 (nat n)) - int (floorlog 2 (nat d))
      in if pow2 e0 \<le> q then e0 else e0 - 1)"

definition roundHalfEven :: "rat \<Rightarrow> int" where
  "roundHalfEven x =
     (let f = \<lfloor>x\<rfloor>; r = x - of_int f
      in if r < 1 / 2 then f else if 1 / 2 < r then f + 1
         else if even f then f else f + 1)"

text \<open>
  53 bits of precision, exponents from \<open>-1022\<close> (below it the spacing stays \<open>2 ^ -1074\<close>:
  the subnormal numbers); a result of \<open>2 ^ 1024\<close> or more, that is \<open>2 ^ 53\<close> units at
  exponent 1023 or any larger exponent, is infinite.
\<close>

definition roundPositive :: "rat \<Rightarrow> jsnum" where
  "roundPositive q =
     (let e = max (binaryExponent q) (- 1022);
          ulp = pow2 (e - 52);
          m = roundHalfEven (q / ulp)
      in if 1023 < e \<or> (e = 1023 \<and> m = 2 ^ 53) then PosInf else Fin (of_int m * ulp))"

definition negate :: "jsnum \<Rightarrow> jsnum" where
  "negate x = (case x of NaN \<Rightarrow> NaN | PosInf \<Rightarrow> NegInf | NegInf \<Rightarrow> PosInf | Fin r \<Rightarrow> Fin (- r))"

definition roundToDouble :: "rat \<Rightarrow> jsnum" where
  "roundToDouble q =
     (if q = 0 then Fin 0 else if 0 < q then roundPositive q else negate (roundPositive (- q)))"

subsection \<open>\<^verbatim>\<open>Number(val)\<close> on a string\<close>

text \<open>
  The conversion of a string to a number: white space is trimmed at both ends; the empty
  string is 0; \<^verbatim>\<open>0x\<close>, \<^verbatim>\<open>0o\<close> and \<^verbatim>\<open>0b\<close> start an unsigned integer in that radix;
  otherwise an optional sign is followed by \<^verbatim>\<open>Infinity\<close> or by a decimal literal with an
  optional fraction and exponent. Anything else is \<^verbatim>\<open>NaN\<close>. The value of a literal
  is rounded to the nearest double, ties to even.
\<close>

definition isStrWhiteSpaceChar :: "char \<Rightarrow> bool" where
  "isStrWhiteSpaceChar c \<longleftrightarrow> (of_char c :: nat) \<in> {9, 10, 11, 12, 13, 32, 160}"

definition trimString :: "string \<Rightarrow> string" where
  "trimString s =
     rev (dropWhile isStrWhiteSpaceChar (rev (dropWhile isStrWhiteSpaceChar s)))"

definition digitOf :: "char \<Rightarrow> nat option" where
  "digitOf c =
     (let n = (of_char c :: nat)
      in if 48 \<le> n \<and> n \<le> 57 then Some (n - 48)
         else if 97 \<le> n \<and> n \<le> 102 then Some (n - 87)
         else if 65 \<le> n \<and> n \<le> 70 then Some (n - 55)
         else None)"

definition isRadixDigit :: "nat \<Rightarrow> char \<Rightarrow> bool" where
  "isRadixDigit radix c = (case digitOf c of None \<Rightarrow> False | Some d \<Rightarrow> d < radix)"

definition digitsValue :: "nat \<Rightarrow> string \<Rightarrow> nat" where
  "digitsValue radix ds = foldl (\<lambda>acc c. radix * acc + (case digitOf c of None \<Rightarrow> 0 | Some d \<Rightarrow> d)) 0 ds"

definition isDecimalDigit :: "char \<Rightarrow> bool" where
  "isDecimalDigit = isRadixDigit 10"

definition nonDecimalInteger :: "nat \<Rightarrow> string \<Rightarrow> jsnum" where
  "nonDecimalInteger radix ds =
     (if ds \<noteq> [] \<and> list_all (isRadixDigit radix) ds
      then roundToDouble (of_nat (digitsValue radix ds)) else NaN)"

text \<open>The exponent part after \<^verbatim>\<open>e\<close> or \<^verbatim>\<open>E\<close>: an optional sign and at least one digit.\<close>

definition signedInteger :: "string \<Rightarrow> int option" where
  "signedInteger s =
     (let (neg, ds) = (case s of c # r \<Rightarrow> if c = CHR ''-'' then (True, r)
                                          else if c = CHR ''+'' then (False, r) else (False, s)
                                | [] \<Rightarrow> (False, s))
      in if ds \<noteq> [] \<and> list_all isDecimalDigit ds
         then Some (if neg then - int (digitsValue 10 ds) else int (digitsValue 10 ds))
         else None)"

definition exponentPart :: "string \<Rightarrow> int option" where
  "exponentPart s =
     (case s of [] \<Rightarrow> Some 0
      | c # r \<Rightarrow> if c = CHR ''e'' \<or> c = CHR ''E'' then signedInteger r else None)"

definition strUnsignedDecimalLiteral :: "string \<Rightarrow> jsnum" where
  "strUnsignedDecimalLiteral s =
     (if s = ''Infinity'' then PosInf
      else
        let ip = takeWhile isDecimalDigit s;
            r1 = dropWhile isDecimalDigit s;
            dot = (r1 \<noteq> [] \<and> hd r1 = CHR ''.'');
            fp = (if dot then takeWhile isDecimalDigit (tl r1) else []);
            r2 = (if dot then dropWhile isDecimalDigit (tl r1) else r1)
        in if ip = [] \<and> fp = [] then NaN
           else case exponentPart r2 of
                  None \<Rightarrow> NaN
                | Some e \<Rightarrow>
                    roundToDouble (of_nat (digitsValue 10 (ip @ fp)) * pow10 (e - int (length fp))))"

definition strDecimalLiteral :: "string \<Rightarrow> jsnum" where
  "strDecimalLiteral s =
     (case s of
        c # r \<Rightarrow> if c = CHR ''+'' then strUnsignedDecimalLiteral r
                 else if c = CHR ''-'' then negate (strUnsignedDecimalLiteral r)
                 else strUnsignedDecimalLiteral s
      | [] \<Rightarrow> NaN)"

definition Number :: "string \<Rightarrow> jsnum" where
  "Number val =
     (let s = trimString val
      in if s = [] then Fin 0
         else if take 2 s = ''0x'' \<or> take 2 s = ''0X'' then nonDecimalInteger 16 (drop 2 s)
         else if take 2 s = ''0o'' \<or> take 2 s = ''0O'' then nonDecimalInteger 8 (drop 2 s)
         else if take 2 s = ''0b'' \<or> take 2 s = ''0B'' then nonDecimalInteger 2 (drop 2 s)
         else strDecimalLiteral s)"

subsection \<open>Objects, errors and completions\<close>

datatype jsval = JStr string | JNum jsnum

text \<open>An object literal: its properties in the order they are written.\<close>

type_synonym jsobj = "(string \<times> jsval) list"

text \<open>
  A thrown or rejected value is an error object; all the source reads of it is
  \<^verbatim>\<open>message\<close>, which may be absent.
\<close>

datatype jserror = Error "string option"

datatype 'a completion = Normal 'a | Throw jserror

text \<open>\<^verbatim>\<open>error.message || fallback\<close>: an absent or empty message is falsy.\<close>

fun messageOr :: "jserror \<Rightarrow> string \<Rightarrow> string" where
  "messageOr (Error None) fallback = fallback"
| "messageOr (Error (Some m)) fallback = (if m = [] then fallback else m)"

subsection \<open>\<^verbatim>\<open>new Date(s).toISOString()\<close>\<close>

text \<open>
  A time value is a number of milliseconds since 1970-01-01T00:00:00Z, or \<open>None\<close> for
  the invalid date (\<^verbatim>\<open>NaN\<close>). The date-only form \<^verbatim>\<open>YYYY-MM-DD\<close>, which a date input
  yields, is parsed here as UTC midnight; a month outside 1 to 12 or a day outside 1 to 31
  gives the invalid date. Two things are the engine's own and are parameters: what it
  reads from any other string (the remaining forms of the format, its own formats, a day
  past the end of the month), and the error, with its wording, that it throws when an
  invalid date is converted.
\<close>

record js_engine =
  otherDates :: "string \<Rightarrow> int option"
  rangeError :: jserror

definition msPerDay :: int where
  "msPerDay = 86400000"

definition isLeapYear :: "int \<Rightarrow> bool" where
  "isLeapYear y \<longleftrightarrow> y mod 4 = 0 \<and> (y mod 100 \<noteq> 0 \<or> y mod 400 = 0)"

definition daysInMonth :: "int \<Rightarrow> int \<Rightarrow> int" where
  "daysInMonth y m =
     (if m = 2 then (if isLeapYear y then 29 else 28)
      else if m = 4 \<or> m = 6 \<or> m = 9 \<or> m = 11 then 30 else 31)"

text \<open>Days between 1970-01-01 and a date of the proleptic Gregorian calendar, and back.\<close>

definition daysFromCivil :: "int \<Rightarrow> int \<Rightarrow> int \<Rightarrow> int" where
  "daysFromCivil y m d =
     (let y' = (if m \<le> 2 then y - 1 else y);
          era = y' div 400;
          yoe = y' mod 400;
          mp = (if 2 < m then m - 3 else m + 9);
          doy = (153 * mp + 2) div 5 + d - 1;
          doe = yoe * 365 + yoe div 4 - yoe div 100 + doy
      in era * 146097 + doe - 719468)"

definition civilFromDays :: "int \<Rightarrow> int \<times> int \<times> int" where
  "civilFromDays z =
     (let z' = z + 719468;
          era = z' div 146097;
          doe = z' mod 146097;
          yoe = (doe - doe div 1460 + doe div 36524 - doe div 146096) div 365;
          doy = doe - (365 * yoe + yoe div 4 - yoe div 100);
          mp = (5 * doy + 2) div 153;
          d = doy - (153 * mp + 2) div 5 + 1;
          m = (if mp < 10 then mp + 3 else mp - 9);
          y = yoe + era * 400
      in (if m \<le> 2 then y + 1 else y, m, d))"

definition dateOnlyForm :: "string \<Rightarrow> (int \<times> int \<times> int) option" where
  "dateOnlyForm s =
     (if length s = 10 \<and> s ! 4 = CHR ''-'' \<and> s ! 7 = CHR ''-''
         \<and> list_all isDecimalDigit (take 4 s @ take 2 (drop 5 s) @ drop 8 s)
      then Some (int (digitsValue 10 (take 4 s)),
                 int (digitsValue 10 (take 2 (drop 5 s))),
                 int (digitsValue 10 (drop 8 s)))
      else None)"

definition timeClip :: "int option \<Rightarrow> int option" where
  "timeClip t = (case t of None \<Rightarrow> None
                 | Some v \<Rightarrow> if \<bar>v\<bar> \<le> 8640000000000000 then Some v else None)"

definition Date_parse :: "js_engine \<Rightarrow> string \<Rightarrow> int option" where
  "Date_parse engine s =
     (case dateOnlyForm s of
        None \<Rightarrow> timeClip (otherDates engine s)
      | Some (y, m, d) \<Rightarrow>
          if m < 1 \<or> 12 < m \<or> d < 1 \<or> 31 < d then None
          else if daysInMonth y m < d then timeClip (otherDates engine s)
          else Some (daysFromCivil y m d * msPerDay))"

text \<open>
  An engine for the examples: it has no format of its own, so every string left to it is
  an invalid date, and its error has the wording of one existing engine.
\<close>

definition strictEngine :: js_engine where
  "strictEngine = \<lparr>otherDates = (\<lambda>s. None), rangeError = Error (Some ''Invalid time value'')\<rparr>"

text \<open>Exactly \<open>k\<close> decimal digits of \<open>n\<close>, zero-padded.\<close>

fun padDigits :: "nat \<Rightarrow> nat \<Rightarrow> string" where
  "padDigits 0 n = []"
| "padDigits (Suc k) n = padDigits k (n div 10) @ [char_of (48 + n mod 10)]"

definition yearString :: "int \<Rightarrow> string" where
  "yearString y =
     (if 0 \<le> y \<and> y \<le> 9999 then padDigits 4 (nat y)
      else (if y < 0 then ''-'' else ''+'') @ padDigits 6 (nat \<bar>y\<bar>))"

text \<open>\<^verbatim>\<open>toISOString\<close> throws the engine's \<^verbatim>\<open>RangeError\<close> on the invalid date.\<close>

definition toISOString :: "js_engine \<Rightarrow> int option \<Rightarrow> string completion" where
  "toISOString engine t =
     (case t of
        None \<Rightarrow> Throw (rangeError engine)
      | Some v \<Rightarrow>
          let (y, m, d) = civilFromDays (v div msPerDay);
              ms = nat (v mod msPerDay)
          in Normal (yearString y @ ''-'' @ padDigits 2 (nat m) @ ''-'' @ padDigits 2 (nat d)
                     @ ''T'' @ padDigits 2 (ms div 3600000) @ '':''
                     @ padDigits 2 (ms div 60000 mod 60) @ '':''
                     @ padDigits 2 (ms div 1000 mod 60) @ ''.'' @ padDigits 3 (ms mod 1000)
                     @ ''Z''))"

section \<open>The validation layer\<close>

text \<open>
  A string schema maps an input to the message of the issue it raises, if any.
  \<^verbatim>\<open>z.string().min(n, message)\<close> compares the length; \<^verbatim>\<open>z.string().refine(check, {message})\<close>
  raises the issue when \<^verbatim>\<open>check\<close> is false; \<^verbatim>\<open>z.string().email({message})\<close> tests the
  schema library's pattern for e-mail addresses, which is a parameter here.
\<close>

type_synonym zod_string = "string \<Rightarrow> string option"

definition z_string_min :: "nat \<Rightarrow> string \<Rightarrow> zod_string" where
  "z_string_min n message val = (if length val < n then Some message else None)"

definition z_string_refine :: "(string \<Rightarrow> bool) \<Rightarrow> string \<Rightarrow> zod_string" where
  "z_string_refine check message val = (if check val then None else Some message)"

definition z_string_email :: "(string \<Rightarrow> bool) \<Rightarrow> string \<Rightarrow> zod_string" where
  "z_string_email emailPattern message val = (if emailPattern val then None else Some message)"

text \<open>
  \<^verbatim>\<open>z.object\<close> parses every key, in the order written, and collects the issues of all of
  them; \<open>get\<close> reads a field of the submitted values.
\<close>

definition z_object_issues ::
  "('f \<times> zod_string) list \<Rightarrow> ('v \<Rightarrow> 'f \<Rightarrow> string) \<Rightarrow> 'v \<Rightarrow> ('f \<times> string) list" where
  "z_object_issues schema get data =
     List.map_filter (\<lambda>(f, check). map_option (Pair f) (check (get data f))) schema"

text \<open>
  \<^verbatim>\<open>zodResolver(schema)\<close>: the values when no issue is raised, otherwise the messages by
  field (\<open>map_of\<close> reads the first message of a field, as the resolver keeps it).
\<close>

datatype ('v, 'f) resolver_result = Valid 'v | Invalid "('f \<times> string) list"

definition zodResolver ::
  "('f \<times> zod_string) list \<Rightarrow> ('v \<Rightarrow> 'f \<Rightarrow> string) \<Rightarrow> 'v \<Rightarrow> ('v, 'f) resolver_result" where
  "zodResolver schema get data =
     (let issues = z_object_issues schema get data
      in if issues = [] then Valid data else Invalid issues)"

text \<open>The fields whose schema raises an issue on the submitted values.\<close>

definition violated :: "('f \<times> zod_string) list \<Rightarrow> ('v \<Rightarrow> 'f \<Rightarrow> string) \<Rightarrow> 'v \<Rightarrow> 'f set" where
  "violated schema get data = {f. \<exists>check. (f, check) \<in> set schema \<and> check (get data f) \<noteq> None}"

subsection \<open>The policy form's schema\<close>

datatype policy_field = Name | Company | Value | Premium | StartDate | EndDate | Nominees

record policy_values =
  name :: string
  company :: string
  "value" :: string
  premium :: string
  startDate :: string
  endDate :: string
  nominees :: string

fun policy_get :: "policy_values \<Rightarrow> policy_field \<Rightarrow> string" where
  "policy_get d Name = name d"
| "policy_get d Company = company d"
| "policy_get d Value = value d"
| "policy_get d Premium = premium d"
| "policy_get d StartDate = startDate d"
| "policy_get d EndDate = endDate d"
| "policy_get d Nominees = nominees d"

definition positiveNumber :: "string \<Rightarrow> bool" where
  "positiveNumber val \<longleftrightarrow> \<not> isNaN (Number val) \<and> js_gt (Number val) (Fin 0)"

definition nomineesInRange :: "string \<Rightarrow> bool" where
  "nomineesInRange val \<longleftrightarrow>
     \<not> isNaN (Number val) \<and> js_gt (Number val) (Fin 0) \<and> js_le (Number val) (Fin 5)"

definition formSchema :: "(policy_field \<times> zod_string) list" where
  "formSchema =
     [(Name, z_string_min 3 ''Policy name must be at least 3 characters''),
      (Company, z_string_min 2 ''Company name must be at least 2 characters''),
      (Value, z_string_refine positiveNumber ''Value must be a positive number''),
      (Premium, z_string_refine positiveNumber ''Premium must be a positive number''),
      (StartDate, z_string_min 1 ''Start date is required''),
      (EndDate, z_string_min 1 ''End date is required''),
      (Nominees, z_string_refine nomineesInRange ''Nominees must be between 1 and 5'')]"

definition policy_resolver :: "policy_values \<Rightarrow> (policy_values, policy_field) resolver_result" where
  "policy_resolver = zodResolver formSchema policy_get"

definition policy_defaultValues :: policy_values where
  "policy_defaultValues =
     \<lparr>name = [], company = [], value = [], premium = [], startDate = [], endDate = [],
      nominees = ''1''\<rparr>"

subsection \<open>The login form's schema\<close>

datatype login_field = Email | Password

record login_values =
  email :: string
  password :: string

fun login_get :: "login_values \<Rightarrow> login_field \<Rightarrow> string" where
  "login_get d Email = email d"
| "login_get d Password = password d"

definition login_formSchema :: "(string \<Rightarrow> bool) \<Rightarrow> (login_field \<times> zod_string) list" where
  "login_formSchema emailPattern =
     [(Email, z_string_email emailPattern ''Please enter a valid email address''),
      (Password, z_string_min 1 ''Password is required'')]"

definition login_resolver ::
  "(string \<Rightarrow> bool) \<Rightarrow> login_values \<Rightarrow> (login_values, login_field) resolver_result" where
  "login_resolver emailPattern = zodResolver (login_formSchema emailPattern) login_get"

definition login_defaultValues :: login_values where
  "login_defaultValues = \<lparr>email = [], password = []\<rparr>"

section \<open>The submission controllers\<close>

text \<open>
  A mounted form: the values and the error messages the form library holds, the
  component's \<^verbatim>\<open>isSubmitting\<close> flag as the state setter last wrote it, the \<^verbatim>\<open>disabled\<close>
  attribute of the buttons as the last render wrote it, the remote calls awaited and not
  yet settled, and everything the handlers have done to the outside so far, in order.
\<close>

record ('v, 'f, 'c, 'e) form =
  fieldValues :: 'v
  fieldErrors :: "('f \<times> string) list"
  isSubmitting :: bool
  submitDisabled :: bool
  inFlight :: "'c list"
  effects :: "'e list"

text \<open>
  \<^verbatim>\<open>setIsSubmitting\<close> only records the new value; the buttons change when the component
  is rendered again, which is a step of its own.
\<close>

definition render :: "('v, 'f, 'c, 'e, 'z) form_scheme \<Rightarrow> ('v, 'f, 'c, 'e, 'z) form_scheme" where
  "render st = st\<lparr>submitDisabled := isSubmitting st\<rparr>"

text \<open>
  \<^verbatim>\<open>form.handleSubmit(onSubmit)\<close>: the resolver runs on the current values; with errors
  they are stored and \<^verbatim>\<open>onSubmit\<close> is not called; without, the errors are cleared and
  \<^verbatim>\<open>onSubmit\<close> receives the values.
\<close>

definition handleSubmit ::
  "('v \<Rightarrow> ('v, 'f) resolver_result)
   \<Rightarrow> ('v \<Rightarrow> ('v, 'f, 'c, 'e, 'z) form_scheme \<Rightarrow> ('v, 'f, 'c, 'e, 'z) form_scheme)
   \<Rightarrow> ('v, 'f, 'c, 'e, 'z) form_scheme \<Rightarrow> ('v, 'f, 'c, 'e, 'z) form_scheme" where
  "handleSubmit resolver onValid st =
     (case resolver (fieldValues st) of
        Invalid errs \<Rightarrow> st\<lparr>fieldErrors := errs\<rparr>
      | Valid data \<Rightarrow> onValid data (st\<lparr>fieldErrors := []\<rparr>))"

text \<open>
  The submit button carries \<^verbatim>\<open>disabled={isSubmitting}\<close> and the handlers do not test the
  flag themselves: a trigger is ignored exactly when the button was rendered disabled.
\<close>

definition submitTrigger ::
  "('v \<Rightarrow> ('v, 'f) resolver_result)
   \<Rightarrow> ('v \<Rightarrow> ('v, 'f, 'c, 'e, 'z) form_scheme \<Rightarrow> ('v, 'f, 'c, 'e, 'z) form_scheme)
   \<Rightarrow> ('v, 'f, 'c, 'e, 'z) form_scheme \<Rightarrow> ('v, 'f, 'c, 'e, 'z) form_scheme" where
  "submitTrigger resolver onValid st =
     (if submitDisabled st then st else handleSubmit resolver onValid st)"

definition emit :: "'e list \<Rightarrow> ('v, 'f, 'c, 'e, 'z) form_scheme \<Rightarrow> ('v, 'f, 'c, 'e, 'z) form_scheme" where
  "emit es st = st\<lparr>effects := effects st @ es\<rparr>"

subsection \<open>The policy form\<close>

datatype policy_effect =
    ConsoleLog jsobj
  | AddPolicy jsobj
  | OnAddPolicy jsobj
  | ToastSuccess string
  | OnClose
  | ToastError string
  | ConsoleError jserror

type_synonym policy_form = "(policy_values, policy_field, jsobj, policy_effect) form"

definition policy_init :: policy_form where
  "policy_init =
     \<lparr>fieldValues = policy_defaultValues, fieldErrors = [], isSubmitting = False,
      submitDisabled = False, inFlight = [], effects = []\<rparr>"

text \<open>The first lines of the \<^verbatim>\<open>try\<close> block: both dates are converted, then the object is built.\<close>

definition newPolicy :: "js_engine \<Rightarrow> policy_values \<Rightarrow> jsobj completion" where
  "newPolicy engine data =
     (case toISOString engine (Date_parse engine (startDate data)) of
        Throw e \<Rightarrow> Throw e
      | Normal startDate' \<Rightarrow>
          (case toISOString engine (Date_parse engine (endDate data)) of
             Throw e \<Rightarrow> Throw e
           | Normal endDate' \<Rightarrow>
               Normal [(''name'', JStr (name data)),
                       (''company'', JStr (company data)),
                       (''value'', JNum (Number (value data))),
                       (''premium'', JNum (Number (premium data))),
                       (''startDate'', JStr startDate'),
                       (''endDate'', JStr endDate'),
                       (''status'', JStr ''Active'')]))"

definition policy_catch :: "jserror \<Rightarrow> policy_form \<Rightarrow> policy_form" where
  "policy_catch e st =
     emit [ToastError (messageOr e ''Failed to add policy. Please try again.''), ConsoleError e] st"

definition policy_finally :: "policy_form \<Rightarrow> policy_form" where
  "policy_finally st = st\<lparr>isSubmitting := False\<rparr>"

text \<open>
  \<^verbatim>\<open>onSubmit\<close> up to its \<^verbatim>\<open>await\<close>: either a date conversion throws, and the handler
  finishes through \<^verbatim>\<open>catch\<close> and \<^verbatim>\<open>finally\<close> at once, or the call to
  \<^verbatim>\<open>PolicyService.addPolicy\<close> is issued and awaited.
\<close>

definition onSubmit :: "js_engine \<Rightarrow> policy_values \<Rightarrow> policy_form \<Rightarrow> policy_form" where
  "onSubmit engine data st0 =
     (let st = st0\<lparr>isSubmitting := True\<rparr>
      in case newPolicy engine data of
           Throw e \<Rightarrow> policy_finally (policy_catch e st)
         | Normal p \<Rightarrow> (emit [ConsoleLog p, AddPolicy p] st)\<lparr>inFlight := inFlight st @ [p]\<rparr>)"

text \<open>
  How the awaited call and the two callbacks of the caller end: the service resolves with
  the saved policy or rejects; a callback returns or throws.
\<close>

record policy_outcome =
  addPolicy_result :: "jsobj completion"
  onAddPolicy_result :: "unit completion"
  onClose_result :: "unit completion"

text \<open>The rest of \<^verbatim>\<open>onSubmit\<close>, run when the awaited call settles.\<close>

definition onSubmit_settled :: "policy_outcome \<Rightarrow> policy_form \<Rightarrow> policy_form" where
  "onSubmit_settled out st0 =
     (case inFlight st0 of
        [] \<Rightarrow> st0
      | p # ps \<Rightarrow>
          let st = st0\<lparr>inFlight := ps\<rparr>
          in policy_finally
               (case addPolicy_result out of
                  Throw e \<Rightarrow> policy_catch e st
                | Normal savedPolicy \<Rightarrow>
                    let st1 = emit [OnAddPolicy savedPolicy] st
                    in case onAddPolicy_result out of
                         Throw e \<Rightarrow> policy_catch e st1
                       | Normal _ \<Rightarrow>
                           let st2 = emit [ToastSuccess ''Policy added successfully'', OnClose] st1
                           in case onClose_result out of
                                Throw e \<Rightarrow> policy_catch e st2
                              | Normal _ \<Rightarrow> st2))"

text \<open>
  What can happen to a mounted policy form: the user changes the inputs (the form library
  may then validate again, so the messages may change too), triggers a submit, presses
  Cancel (which carries \<^verbatim>\<open>disabled={isSubmitting}\<close> too) or the close button (never
  disabled); the component is rendered again; the oldest awaited call settles.
\<close>

datatype policy_action =
    Input policy_values "(policy_field \<times> string) list"
  | Submit
  | Cancel
  | Dismiss
  | Render
  | Settle policy_outcome

fun policy_step :: "js_engine \<Rightarrow> policy_form \<Rightarrow> policy_action \<Rightarrow> policy_form" where
  "policy_step engine st (Input v errs) = st\<lparr>fieldValues := v, fieldErrors := errs\<rparr>"
| "policy_step engine st Submit = submitTrigger policy_resolver (onSubmit engine) st"
| "policy_step engine st Cancel = (if submitDisabled st then st else emit [OnClose] st)"
| "policy_step engine st Dismiss = emit [OnClose] st"
| "policy_step engine st Render = render st"
| "policy_step engine st (Settle out) = onSubmit_settled out st"

definition policy_run :: "js_engine \<Rightarrow> policy_action list \<Rightarrow> policy_form" where
  "policy_run engine acts = foldl (policy_step engine) policy_init acts"


subsection \<open>The login page\<close>

datatype login_effect =
    Login login_values
  | LogSuccess
  | Navigate string
  | LogError jserror

record ('v, 'f, 'c, 'e) login_page = "('v, 'f, 'c, 'e) form" +
  error :: string

type_synonym login_form = "(login_values, login_field, login_values, login_effect) login_page"

definition login_init :: login_form where
  "login_init =
     \<lparr>fieldValues = login_defaultValues, fieldErrors = [], isSubmitting = False,
      submitDisabled = False, inFlight = [], effects = [], error = []\<rparr>"

text \<open>\<^verbatim>\<open>onSubmit\<close> of the login page up to its \<^verbatim>\<open>await\<close>.\<close>

definition login_onSubmit :: "login_values \<Rightarrow> login_form \<Rightarrow> login_form" where
  "login_onSubmit values st0 =
     (let st = st0\<lparr>isSubmitting := True, error := []\<rparr>;
          credentials = \<lparr>email = email values, password = password values\<rparr>
      in (emit [Login credentials] st)\<lparr>inFlight := inFlight st @ [credentials]\<rparr>)"

text \<open>
  The rest, run when \<^verbatim>\<open>login\<close> settles: it resolves with a value that is truthy or falsy,
  or rejects.
\<close>

definition login_onSubmit_settled :: "bool completion \<Rightarrow> login_form \<Rightarrow> login_form" where
  "login_onSubmit_settled out st0 =
     (case inFlight st0 of
        [] \<Rightarrow> st0
      | c # cs \<Rightarrow>
          let st = st0\<lparr>inFlight := cs\<rparr>
          in (case out of
                Throw err \<Rightarrow> (emit [LogError err] st)\<lparr>error := messageOr err ''Invalid email or password''\<rparr>
              | Normal success \<Rightarrow>
                  if success then emit [LogSuccess, Navigate ''/dashboard''] st else st)
             \<lparr>isSubmitting := False\<rparr>)"

datatype login_action =
    LoginInput login_values "(login_field \<times> string) list"
  | LoginSubmit
  | LoginRender
  | LoginSettle "bool completion"

fun login_step :: "(string \<Rightarrow> bool) \<Rightarrow> login_form \<Rightarrow> login_action \<Rightarrow> login_form" where
  "login_step emailPattern st (LoginInput v errs) = st\<lparr>fieldValues := v, fieldErrors := errs\<rparr>"
| "login_step emailPattern st LoginSubmit =
     submitTrigger (login_resolver emailPattern) login_onSubmit st"
| "login_step emailPattern st LoginRender = render st"
| "login_step emailPattern st (LoginSettle out) = login_onSubmit_settled out st"



text \<open>The example inputs of the specification.\<close>

definition lifePolicy :: policy_values where
  "lifePolicy =
     \<lparr>name = ''Life'', company = ''Met'', value = ''100000'', premium = ''50'',
      startDate = ''2024-01-01'', endDate = ''2025-01-01'', nominees = ''2''\<rparr>"

text \<open>
  A stand-in for the schema library's e-mail pattern, for the examples: it only asks for
  an at sign.
\<close>

definition hasAtSign :: "string \<Rightarrow> bool" where
  "hasAtSign s \<longleftrightarrow> CHR ''@'' \<in> set s"

section \<open>Properties of the validation layer\<close>

subsection \<open>Conversions of the inputs used below\<close>

lemma Number_empty: "Number [] = Fin 0"
  by code_simp

lemma Number_1: "Number ''1'' = Fin 1"
  by code_simp

lemma Number_2: "Number ''2'' = Fin 2"
  by code_simp

lemma Number_5: "Number ''5'' = Fin 5"
  by code_simp

lemma Number_6: "Number ''6'' = Fin 6"
  by code_simp

lemma Number_50: "Number ''50'' = Fin 50"
  by code_simp

lemma Number_100000: "Number ''100000'' = Fin 100000"
  by code_simp

lemma Number_minus_5: "Number ''-5'' = Fin (- 5)"
  by code_simp

lemma Number_one_half: "Number ''0.5'' = Fin (1 / 2)"
  by code_simp

lemma Number_Infinity: "Number ''Infinity'' = PosInf"
  by code_simp

text \<open>Other forms the conversion reads, and strings it does not.\<close>

lemma Number_forms:
  "Number '' 12.5e1 '' = Fin 125" "Number ''0x1F'' = Fin 31" "Number ''.5'' = Fin (1 / 2)"
  "Number ''-Infinity'' = NegInf"
  by code_simp+

lemma Number_not_a_number:
  "Number ''abc'' = NaN" "Number ''12px'' = NaN" "Number ''1e'' = NaN" "Number ''.'' = NaN"
  by code_simp+

lemmas Number_examples =
  Number_empty Number_1 Number_2 Number_5 Number_6 Number_50 Number_100000 Number_minus_5
  Number_one_half Number_Infinity

lemma toISOString_2024: "toISOString engine (Date_parse engine ''2024-01-01'') = Normal ''2024-01-01T00:00:00.000Z''"
  by code_simp

lemma toISOString_2025: "toISOString engine (Date_parse engine ''2025-01-01'') = Normal ''2025-01-01T00:00:00.000Z''"
  by code_simp

lemma Date_parse_month_13: "Date_parse engine ''2024-13-01'' = None"
  by code_simp

text \<open>Other time values, and two strings whose reading is the engine's.\<close>

lemma toISOString_samples:
  "toISOString engine (Some (- 1)) = Normal ''1969-12-31T23:59:59.999Z''"
  "toISOString engine (Some 1730521234567) = Normal ''2024-11-02T04:20:34.567Z''"
  "toISOString engine (Some 8640000000000000) = Normal ''+275760-09-13T00:00:00.000Z''"
  "toISOString engine (Date_parse engine ''2024-02-29'') = Normal ''2024-02-29T00:00:00.000Z''"
  "toISOString engine None = Throw (rangeError engine)"
  by code_simp+

lemma Date_parse_left_to_engine:
  "Date_parse engine ''2023-02-30'' = timeClip (otherDates engine ''2023-02-30'')"
  "Date_parse engine ''March 7, 2024'' = timeClip (otherDates engine ''March 7, 2024'')"
  by (simp_all add: Date_parse_def dateOnlyForm_def daysInMonth_def isLeapYear_def
      isDecimalDigit_def isRadixDigit_def digitOf_def digitsValue_def)

subsection \<open>The checks in terms of the number read\<close>

lemma positiveNumber_iff:
  "positiveNumber val \<longleftrightarrow> Number val = PosInf \<or> (\<exists>r. Number val = Fin r \<and> 0 < r)"
  by (cases "Number val") (simp_all add: positiveNumber_def isNaN_def js_gt_def)

lemma nomineesInRange_iff:
  "nomineesInRange val \<longleftrightarrow> (\<exists>r. Number val = Fin r \<and> 0 < r \<and> r \<le> 5)"
  by (cases "Number val") (auto simp: nomineesInRange_def isNaN_def js_gt_def js_le_def)

subsection \<open>Issues, violated fields and the resolver\<close>

lemma set_z_object_issues:
  "set (z_object_issues schema get data) =
     {(f, m). \<exists>check. (f, check) \<in> set schema \<and> check (get data f) = Some m}"
  by (induction schema)
     (auto simp: z_object_issues_def List.map_filter_simps split: option.splits)

lemma z_object_issues_Nil:
  "z_object_issues schema get data = [] \<longleftrightarrow> violated schema get data = {}"
proof -
  have "z_object_issues schema get data = [] \<longleftrightarrow> set (z_object_issues schema get data) = {}"
    by simp
  also have "\<dots> \<longleftrightarrow> violated schema get data = {}"
    unfolding set_z_object_issues violated_def
    by (auto simp: set_eq_iff) (metis not_Some_eq, metis option.distinct(1))
  finally show ?thesis .
qed

lemma map_of_z_object_issues_absent:
  "f \<notin> fst ` set schema \<Longrightarrow> map_of (z_object_issues schema get data) f = None"
  by (induction schema)
     (auto simp: z_object_issues_def List.map_filter_simps split: option.splits)

lemma map_of_z_object_issues:
  "distinct (map fst schema) \<Longrightarrow> (f, check) \<in> set schema \<Longrightarrow>
   map_of (z_object_issues schema get data) f = check (get data f)"
proof (induction schema)
  case Nil
  then show ?case by simp
next
  case (Cons fc schema)
  obtain f' c' where fc: "fc = (f', c')" by (cases fc)
  have notin: "f' \<notin> fst ` set schema" using Cons.prems(1) fc by simp
  note absent = map_of_z_object_issues_absent [OF notin, of get data]
  show ?case
  proof (cases "f = f'")
    case True
    then have "check = c'" using Cons.prems fc notin by (auto simp: image_iff)
    with True absent fc show ?thesis
      by (auto simp: z_object_issues_def List.map_filter_simps split: option.splits)
  next
    case False
    then have "(f, check) \<in> set schema" using Cons.prems(2) fc by auto
    with Cons.IH Cons.prems(1)
    have "map_of (z_object_issues schema get data) f = check (get data f)" by simp
    with False fc show ?thesis
      by (auto simp: z_object_issues_def List.map_filter_simps split: option.splits)
  qed
qed

lemma zodResolver_cases:
  assumes "distinct (map fst schema)"
  shows "(violated schema get data = {} \<longrightarrow> zodResolver schema get data = Valid data) \<and>
         (violated schema get data \<noteq> {} \<longrightarrow>
            (\<exists>errs. zodResolver schema get data = Invalid errs \<and>
               (\<forall>f check. (f, check) \<in> set schema \<longrightarrow> map_of errs f = check (get data f))))"
  using assms by (auto simp: zodResolver_def Let_def z_object_issues_Nil map_of_z_object_issues)

lemma zodResolver_Valid_iff:
  "zodResolver schema get data = Valid v \<longleftrightarrow> violated schema get data = {} \<and> v = data"
  by (auto simp: zodResolver_def Let_def z_object_issues_Nil)

lemma zodResolver_Invalid_iff:
  "zodResolver schema get data = Invalid errs \<longleftrightarrow>
     violated schema get data \<noteq> {} \<and> errs = z_object_issues schema get data"
  by (auto simp: zodResolver_def Let_def z_object_issues_Nil)

lemma distinct_formSchema: "distinct (map fst formSchema)"
  by (simp add: formSchema_def)

lemma distinct_login_formSchema: "distinct (map fst (login_formSchema emailPattern))"
  by (simp add: login_formSchema_def)

lemma violated_map_of:
  "distinct (map fst schema) \<Longrightarrow>
   violated schema get data =
     {f. \<exists>check. map_of schema f = Some check \<and> check (get data f) \<noteq> None}"
  by (simp add: violated_def)

lemmas policy_violated_map_of = violated_map_of [OF distinct_formSchema, of policy_get]

lemmas login_violated_map_of = violated_map_of [OF distinct_login_formSchema, of _ login_get]

text \<open>What each field of the two schemas checks.\<close>

lemma policy_field_violated:
  "Name \<in> violated formSchema policy_get d \<longleftrightarrow> length (name d) < 3"
  "Company \<in> violated formSchema policy_get d \<longleftrightarrow> length (company d) < 2"
  "Value \<in> violated formSchema policy_get d \<longleftrightarrow> \<not> positiveNumber (value d)"
  "Premium \<in> violated formSchema policy_get d \<longleftrightarrow> \<not> positiveNumber (premium d)"
  "StartDate \<in> violated formSchema policy_get d \<longleftrightarrow> startDate d = []"
  "EndDate \<in> violated formSchema policy_get d \<longleftrightarrow> endDate d = []"
  "Nominees \<in> violated formSchema policy_get d \<longleftrightarrow> \<not> nomineesInRange (nominees d)"
  unfolding policy_violated_map_of
  by (simp_all add: formSchema_def z_string_min_def z_string_refine_def)

lemma login_field_violated:
  "Email \<in> violated (login_formSchema emailPattern) login_get l \<longleftrightarrow> \<not> emailPattern (email l)"
  "Password \<in> violated (login_formSchema emailPattern) login_get l \<longleftrightarrow> password l = []"
  unfolding login_violated_map_of
  by (simp_all add: login_formSchema_def z_string_min_def z_string_email_def)

lemma policy_violated_empty:
  "violated formSchema policy_get d = {} \<longleftrightarrow>
     3 \<le> length (name d) \<and> 2 \<le> length (company d) \<and> positiveNumber (value d)
     \<and> positiveNumber (premium d) \<and> startDate d \<noteq> [] \<and> endDate d \<noteq> []
     \<and> nomineesInRange (nominees d)"
proof -
  have "violated formSchema policy_get d = {} \<longleftrightarrow> (\<forall>f. f \<notin> violated formSchema policy_get d)"
    by auto
  also have "\<dots> \<longleftrightarrow>
      Name \<notin> violated formSchema policy_get d \<and> Company \<notin> violated formSchema policy_get d
      \<and> Value \<notin> violated formSchema policy_get d \<and> Premium \<notin> violated formSchema policy_get d
      \<and> StartDate \<notin> violated formSchema policy_get d \<and> EndDate \<notin> violated formSchema policy_get d
      \<and> Nominees \<notin> violated formSchema policy_get d"
    by (metis policy_field.exhaust)
  finally show ?thesis
    by (simp add: policy_field_violated not_less)
qed

lemma login_violated_empty:
  "violated (login_formSchema emailPattern) login_get l = {} \<longleftrightarrow>
     emailPattern (email l) \<and> password l \<noteq> []"
proof -
  have "violated (login_formSchema emailPattern) login_get l = {} \<longleftrightarrow>
          (\<forall>f. f \<notin> violated (login_formSchema emailPattern) login_get l)"
    by auto
  also have "\<dots> \<longleftrightarrow>
      Email \<notin> violated (login_formSchema emailPattern) login_get l
      \<and> Password \<notin> violated (login_formSchema emailPattern) login_get l"
    by (metis login_field.exhaust)
  finally show ?thesis
    by (simp add: login_field_violated)
qed

lemma policy_resolver_Valid_iff:
  "policy_resolver d = Valid v \<longleftrightarrow> violated formSchema policy_get d = {} \<and> v = d"
  by (simp add: policy_resolver_def zodResolver_Valid_iff)

lemma lifePolicy_valid: "violated formSchema policy_get lifePolicy = {}"
  by (simp add: policy_violated_empty lifePolicy_def positiveNumber_iff nomineesInRange_iff
      Number_examples)

section \<open>The claims\<close>

text \<open>
  C1. Whenever no field of a form's schema is violated, the validation layer returns
  \<open>Valid\<close> with the values; whenever some field is violated, it returns \<open>Invalid\<close>
  with the messages, and for every field of the schema the message stored is exactly what
  that field's check raises: its message if the field is violated, none if it is not. All
  fields are checked; a violation of one does not hide another. This holds for the policy
  form and for the login form, whatever the e-mail pattern.
\<close>

theorem validation_reports_every_violation:
  "(violated formSchema policy_get d = {} \<longrightarrow> policy_resolver d = Valid d) \<and>
   (violated formSchema policy_get d \<noteq> {} \<longrightarrow>
      (\<exists>errs. policy_resolver d = Invalid errs \<and>
         (\<forall>f check. (f, check) \<in> set formSchema \<longrightarrow> map_of errs f = check (policy_get d f)))) \<and>
   (violated (login_formSchema emailPattern) login_get l = {} \<longrightarrow>
      login_resolver emailPattern l = Valid l) \<and>
   (violated (login_formSchema emailPattern) login_get l \<noteq> {} \<longrightarrow>
      (\<exists>errs. login_resolver emailPattern l = Invalid errs \<and>
         (\<forall>f check. (f, check) \<in> set (login_formSchema emailPattern) \<longrightarrow>
            map_of errs f = check (login_get l f))))"
  using zodResolver_cases [OF distinct_formSchema, of policy_get d]
    zodResolver_cases [OF distinct_login_formSchema, of emailPattern login_get l]
  unfolding policy_resolver_def login_resolver_def by blast

text \<open>
  The example of the specification is valid; the default values with \<^verbatim>\<open>value: "-5"\<close> are
  not, and the messages of \<open>value\<close> and \<open>name\<close> are both there while \<open>nominees\<close> has
  none.
\<close>

theorem validation_reports_every_violation_witness:
  "policy_resolver lifePolicy = Valid lifePolicy \<and>
   (\<exists>errs. policy_resolver (policy_defaultValues\<lparr>value := ''-5''\<rparr>) = Invalid errs
      \<and> map_of errs Value = Some ''Value must be a positive number''
      \<and> map_of errs Name = Some ''Policy name must be at least 3 characters''
      \<and> map_of errs Nominees = None) \<and>
   login_resolver hasAtSign \<lparr>email = ''a@b.co'', password = ''x''\<rparr>
     = Valid \<lparr>email = ''a@b.co'', password = ''x''\<rparr> \<and>
   (\<exists>errs. login_resolver hasAtSign \<lparr>email = ''a@b.co'', password = []\<rparr> = Invalid errs
      \<and> map_of errs Password = Some ''Password is required'' \<and> map_of errs Email = None)"
proof -
  let ?bad = "policy_defaultValues\<lparr>value := ''-5''\<rparr>"
  let ?ok = "\<lparr>email = ''a@b.co'', password = ''x''\<rparr>"
  let ?nopw = "\<lparr>email = ''a@b.co'', password = []\<rparr>"
  have ok: "violated (login_formSchema hasAtSign) login_get ?ok = {}"
    by (simp add: login_violated_empty hasAtSign_def)
  have bad: "violated formSchema policy_get ?bad \<noteq> {}"
    using policy_field_violated(1) [of ?bad] by (auto simp: policy_defaultValues_def)
  have nopw: "violated (login_formSchema hasAtSign) login_get ?nopw \<noteq> {}"
    using login_field_violated(2) [of hasAtSign ?nopw] by auto
  note good = validation_reports_every_violation [of lifePolicy hasAtSign ?ok]
  note poor = validation_reports_every_violation [of ?bad hasAtSign ?nopw]
  from poor bad obtain errs where errs: "policy_resolver ?bad = Invalid errs"
    "\<And>f check. (f, check) \<in> set formSchema \<Longrightarrow> map_of errs f = check (policy_get ?bad f)"
    by blast
  from poor nopw obtain lerrs where lerrs: "login_resolver hasAtSign ?nopw = Invalid lerrs"
    "\<And>f check. (f, check) \<in> set (login_formSchema hasAtSign) \<Longrightarrow>
       map_of lerrs f = check (login_get ?nopw f)"
    by blast
  have "map_of errs Value = Some ''Value must be a positive number''"
    by (subst errs(2) [of Value "z_string_refine positiveNumber ''Value must be a positive number''"])
       (simp_all add: formSchema_def z_string_refine_def positiveNumber_iff Number_examples)
  moreover have "map_of errs Name = Some ''Policy name must be at least 3 characters''"
    by (subst errs(2) [of Name "z_string_min 3 ''Policy name must be at least 3 characters''"])
       (simp_all add: formSchema_def z_string_min_def policy_defaultValues_def)
  moreover have "map_of errs Nominees = None"
    by (subst errs(2) [of Nominees "z_string_refine nomineesInRange ''Nominees must be between 1 and 5''"])
       (simp_all add: formSchema_def z_string_refine_def nomineesInRange_iff Number_examples
          policy_defaultValues_def)
  moreover have "map_of lerrs Password = Some ''Password is required''"
    by (subst lerrs(2) [of Password "z_string_min 1 ''Password is required''"])
       (simp_all add: login_formSchema_def z_string_min_def)
  moreover have "map_of lerrs Email = None"
    by (subst lerrs(2) [of Email "z_string_email hasAtSign ''Please enter a valid email address''"])
       (simp_all add: login_formSchema_def z_string_email_def hasAtSign_def)
  ultimately show ?thesis
    using good lifePolicy_valid ok errs(1) lerrs(1) by simp
qed

text \<open>
  C2. The nominees field is accepted exactly when the number read from it is finite,
  greater than 0 and at most 5: the lower bound of the check is \<^verbatim>\<open>> 0\<close>, not
  \<^verbatim>\<open>>= 1\<close>. So \<^verbatim>\<open>"5"\<close> and \<^verbatim>\<open>"1"\<close> are accepted and \<^verbatim>\<open>"6"\<close> is rejected, as the
  field's own message "Nominees must be between 1 and 5" says, but \<^verbatim>\<open>"0.5"\<close>, which
  reads as a number strictly below 1, is accepted too.
\<close>

lemma nominees_accepted_iff:
  "Nominees \<notin> violated formSchema policy_get d \<longleftrightarrow>
     (\<exists>r. Number (nominees d) = Fin r \<and> 0 < r \<and> r \<le> 5)"
  by (auto simp: policy_field_violated nomineesInRange_iff)

lemma nominees_boundaries:
  "nomineesInRange ''5''" "\<not> nomineesInRange ''6''" "nomineesInRange ''1''"
  by (simp_all add: nomineesInRange_iff Number_examples)

text \<open>
  C2, at the input \<^verbatim>\<open>nominees: "0.5"\<close>: the field raises no issue and the form, otherwise
  the example of the specification, is valid.
\<close>

theorem nominees_one_half_accepted:
  "Number ''0.5'' = Fin (1 / 2) \<and>
   Nominees \<notin> violated formSchema policy_get (lifePolicy\<lparr>nominees := ''0.5''\<rparr>) \<and>
   policy_resolver (lifePolicy\<lparr>nominees := ''0.5''\<rparr>) = Valid (lifePolicy\<lparr>nominees := ''0.5''\<rparr>)"
  by (simp add: policy_resolver_Valid_iff policy_violated_empty policy_field_violated
      lifePolicy_def positiveNumber_def nomineesInRange_def isNaN_def js_gt_def js_le_def
      Number_examples)

subsection \<open>The payload and the start of the policy handler\<close>

lemma toISOString_Throw:
  "toISOString engine t = Throw e \<longleftrightarrow> t = None \<and> e = rangeError engine"
  by (auto simp: toISOString_def Let_def split: option.splits prod.splits)

lemma toISOString_Normal: "toISOString engine t = Normal s \<Longrightarrow> t \<noteq> None"
  by (cases t) (simp_all add: toISOString_def)

lemma newPolicy_Normal:
  "newPolicy engine d = Normal p \<longleftrightarrow>
     (\<exists>s e. toISOString engine (Date_parse engine (startDate d)) = Normal s
        \<and> toISOString engine (Date_parse engine (endDate d)) = Normal e
        \<and> p = [(''name'', JStr (name d)), (''company'', JStr (company d)),
               (''value'', JNum (Number (value d))), (''premium'', JNum (Number (premium d))),
               (''startDate'', JStr s), (''endDate'', JStr e), (''status'', JStr ''Active'')])"
  by (auto simp: newPolicy_def split: completion.splits)

lemma newPolicy_Throw:
  "newPolicy engine d = Throw e \<longleftrightarrow>
     (Date_parse engine (startDate d) = None \<or> Date_parse engine (endDate d) = None)
     \<and> e = rangeError engine"
  by (auto simp: newPolicy_def toISOString_Throw split: completion.splits
      dest: toISOString_Normal)

text \<open>
  Whatever the input, a payload that is built has these seven properties and no other.
\<close>

lemma newPolicy_keys:
  "newPolicy engine d = Normal p \<Longrightarrow>
   map fst p = [''name'', ''company'', ''value'', ''premium'', ''startDate'', ''endDate'', ''status'']"
  by (auto simp: newPolicy_Normal)

lemma newPolicy_lifePolicy:
  "newPolicy engine lifePolicy =
     Normal [(''name'', JStr ''Life''), (''company'', JStr ''Met''),
             (''value'', JNum (Fin 100000)), (''premium'', JNum (Fin 50)),
             (''startDate'', JStr ''2024-01-01T00:00:00.000Z''),
             (''endDate'', JStr ''2025-01-01T00:00:00.000Z''),
             (''status'', JStr ''Active'')]"
  by (simp add: newPolicy_def lifePolicy_def toISOString_2024 toISOString_2025 Number_examples)

text \<open>
  A date that does not parse stops the handler at the conversion: the engine's error is
  caught and reported with its own message, the flag is reset, and no call is issued.
\<close>

lemma onSubmit_Throw:
  "Date_parse engine (startDate d) = None \<or> Date_parse engine (endDate d) = None \<Longrightarrow>
   onSubmit engine d st =
     st\<lparr>isSubmitting := False,
        effects := effects st @
          [ToastError (messageOr (rangeError engine) ''Failed to add policy. Please try again.''),
           ConsoleError (rangeError engine)]\<rparr>"
proof -
  assume "Date_parse engine (startDate d) = None \<or> Date_parse engine (endDate d) = None"
  then have "newPolicy engine d = Throw (rangeError engine)"
    by (simp add: newPolicy_Throw)
  then show ?thesis
    by (simp add: onSubmit_def policy_finally_def policy_catch_def emit_def)
qed

lemma onSubmit_Normal:
  "newPolicy engine d = Normal p \<Longrightarrow>
   onSubmit engine d st =
     st\<lparr>isSubmitting := True, inFlight := inFlight st @ [p],
        effects := effects st @ [ConsoleLog p, AddPolicy p]\<rparr>"
  by (simp add: onSubmit_def emit_def)

lemma policy_submit_Valid:
  "\<not> submitDisabled st \<Longrightarrow> violated formSchema policy_get (fieldValues st) = {} \<Longrightarrow>
   policy_step engine st Submit = onSubmit engine (fieldValues st) (st\<lparr>fieldErrors := []\<rparr>)"
  by (simp add: submitTrigger_def handleSubmit_def policy_resolver_def zodResolver_def
      z_object_issues_Nil)

lemma policy_run_snoc: "policy_run engine (acts @ [a]) = policy_step engine (policy_run engine acts) a"
  by (simp add: policy_run_def)

lemma policy_run_lifePolicy_submitted:
  "policy_run strictEngine [Input lifePolicy [], Submit] =
     \<lparr>fieldValues = lifePolicy, fieldErrors = [], isSubmitting = True, submitDisabled = False,
      inFlight = [[(''name'', JStr ''Life''), (''company'', JStr ''Met''),
                   (''value'', JNum (Fin 100000)), (''premium'', JNum (Fin 50)),
                   (''startDate'', JStr ''2024-01-01T00:00:00.000Z''),
                   (''endDate'', JStr ''2025-01-01T00:00:00.000Z''),
                   (''status'', JStr ''Active'')]],
      effects = [ConsoleLog [(''name'', JStr ''Life''), (''company'', JStr ''Met''),
                             (''value'', JNum (Fin 100000)), (''premium'', JNum (Fin 50)),
                             (''startDate'', JStr ''2024-01-01T00:00:00.000Z''),
                             (''endDate'', JStr ''2025-01-01T00:00:00.000Z''),
                             (''status'', JStr ''Active'')],
                 AddPolicy [(''name'', JStr ''Life''), (''company'', JStr ''Met''),
                            (''value'', JNum (Fin 100000)), (''premium'', JNum (Fin 50)),
                            (''startDate'', JStr ''2024-01-01T00:00:00.000Z''),
                            (''endDate'', JStr ''2025-01-01T00:00:00.000Z''),
                            (''status'', JStr ''Active'')]]\<rparr>"
proof -
  let ?st = "policy_init\<lparr>fieldValues := lifePolicy, fieldErrors := []\<rparr>"
  have "policy_step strictEngine ?st Submit = onSubmit strictEngine lifePolicy (?st\<lparr>fieldErrors := []\<rparr>)"
    using policy_submit_Valid [of ?st strictEngine] lifePolicy_valid
    by (simp add: policy_init_def)
  then have "policy_run strictEngine [Input lifePolicy [], Submit] = onSubmit strictEngine lifePolicy ?st"
    by (simp add: policy_run_def)
  then show ?thesis
    by (simp add: onSubmit_Normal [OF newPolicy_lifePolicy] policy_init_def)
qed

text \<open>
  C3, as the code has it. The schema of \<open>startDate\<close> and of \<open>endDate\<close> is
  \<^verbatim>\<open>z.string().min(1, ...)\<close>: the validation layer accepts the field exactly when it is
  not empty, and whether the string is a date is not looked at.
\<close>

theorem dates_only_required:
  "(StartDate \<in> violated formSchema policy_get d \<longleftrightarrow> startDate d = []) \<and>
   (EndDate \<in> violated formSchema policy_get d \<longleftrightarrow> endDate d = [])"
  by (simp add: policy_field_violated)

text \<open>
  The thirteenth month is no date for any engine, yet no issue is raised on the field; an
  empty end date is rejected.
\<close>

theorem dates_only_required_witness:
  "StartDate \<notin> violated formSchema policy_get (lifePolicy\<lparr>startDate := ''2024-13-01''\<rparr>) \<and>
   EndDate \<in> violated formSchema policy_get (lifePolicy\<lparr>endDate := []\<rparr>)"
  using dates_only_required [of "lifePolicy\<lparr>startDate := ''2024-13-01''\<rparr>"]
    dates_only_required [of "lifePolicy\<lparr>endDate := []\<rparr>"]
  by simp

text \<open>
  C3 as stated fails: a start date that is not empty and does not parse passes validation.
\<close>

theorem unparseable_date_passes_validation:
  "''2024-13-01'' \<noteq> [] \<and> Date_parse strictEngine ''2024-13-01'' = None \<and>
   policy_resolver (lifePolicy\<lparr>startDate := ''2024-13-01''\<rparr>)
     = Valid (lifePolicy\<lparr>startDate := ''2024-13-01''\<rparr>)"
  by (simp add: Date_parse_month_13 policy_resolver_Valid_iff policy_violated_empty
      lifePolicy_def positiveNumber_def nomineesInRange_def isNaN_def js_gt_def js_le_def
      Number_examples)

text \<open>
  C4, at the example of the specification: the form is valid, and the payload logged and
  passed to \<^verbatim>\<open>PolicyService.addPolicy\<close> has the properties \<open>name\<close>, \<open>company\<close>,
  \<open>value\<close> and \<open>premium\<close> as numbers, \<open>startDate\<close> and \<open>endDate\<close> as ISO 8601
  timestamps and \<open>status\<close> set to \<^verbatim>\<open>"Active"\<close>; it has no \<open>nominees\<close> property,
  although the form asked for the count and validated it.
\<close>

theorem dispatched_payload_lacks_nominees:
  "policy_resolver lifePolicy = Valid lifePolicy \<and>
   effects (policy_run strictEngine [Input lifePolicy [], Submit]) =
     [ConsoleLog [(''name'', JStr ''Life''), (''company'', JStr ''Met''),
                  (''value'', JNum (Fin 100000)), (''premium'', JNum (Fin 50)),
                  (''startDate'', JStr ''2024-01-01T00:00:00.000Z''),
                  (''endDate'', JStr ''2025-01-01T00:00:00.000Z''),
                  (''status'', JStr ''Active'')],
      AddPolicy [(''name'', JStr ''Life''), (''company'', JStr ''Met''),
                 (''value'', JNum (Fin 100000)), (''premium'', JNum (Fin 50)),
                 (''startDate'', JStr ''2024-01-01T00:00:00.000Z''),
                 (''endDate'', JStr ''2025-01-01T00:00:00.000Z''),
                 (''status'', JStr ''Active'')]] \<and>
   map_of [(''name'', JStr ''Life''), (''company'', JStr ''Met''),
           (''value'', JNum (Fin 100000)), (''premium'', JNum (Fin 50)),
           (''startDate'', JStr ''2024-01-01T00:00:00.000Z''),
           (''endDate'', JStr ''2025-01-01T00:00:00.000Z''),
           (''status'', JStr ''Active'')] ''nominees'' = None"
proof -
  let ?st = "policy_init\<lparr>fieldValues := lifePolicy, fieldErrors := []\<rparr>"
  have "policy_step strictEngine ?st Submit = onSubmit strictEngine lifePolicy (?st\<lparr>fieldErrors := []\<rparr>)"
    using policy_submit_Valid [of ?st strictEngine] lifePolicy_valid
    by (simp add: policy_init_def)
  then have "effects (policy_run strictEngine [Input lifePolicy [], Submit])
      = effects (onSubmit strictEngine lifePolicy ?st)"
    by (simp add: policy_run_def)
  then show ?thesis
    by (simp add: onSubmit_Normal [OF newPolicy_lifePolicy] policy_init_def
        policy_resolver_Valid_iff lifePolicy_valid)
qed

text \<open>
  C5, as the code has it. In every payload built from values that passed validation,
  \<open>value\<close> and \<open>premium\<close> are numbers that are not \<^verbatim>\<open>NaN\<close> and are greater than 0.
  The check does not ask for a finite number.
\<close>

theorem validated_numbers_positive:
  "policy_resolver d = Valid v \<Longrightarrow> newPolicy engine v = Normal p \<Longrightarrow>
   (\<exists>x y. map_of p ''value'' = Some (JNum x) \<and> map_of p ''premium'' = Some (JNum y)
      \<and> \<not> isNaN x \<and> js_gt x (Fin 0) \<and> \<not> isNaN y \<and> js_gt y (Fin 0))"
  by (auto simp: policy_resolver_Valid_iff policy_violated_empty newPolicy_Normal
      positiveNumber_def)

theorem validated_numbers_positive_witness:
  "policy_resolver lifePolicy = Valid lifePolicy \<and>
   (\<exists>p. newPolicy strictEngine lifePolicy = Normal p \<and>
      (\<exists>x y. map_of p ''value'' = Some (JNum x) \<and> map_of p ''premium'' = Some (JNum y)
         \<and> \<not> isNaN x \<and> js_gt x (Fin 0) \<and> \<not> isNaN y \<and> js_gt y (Fin 0)))"
proof -
  have v: "policy_resolver lifePolicy = Valid lifePolicy"
    by (simp add: policy_resolver_Valid_iff lifePolicy_valid)
  from validated_numbers_positive [OF v newPolicy_lifePolicy [of strictEngine]] v
  show ?thesis
    using newPolicy_lifePolicy [of strictEngine] by simp
qed

text \<open>
  C5 as stated fails: \<^verbatim>\<open>value: "Infinity"\<close> passes validation and the payload carries
  positive infinity.
\<close>

theorem infinite_value_passes_validation:
  "policy_resolver (lifePolicy\<lparr>value := ''Infinity''\<rparr>) = Valid (lifePolicy\<lparr>value := ''Infinity''\<rparr>) \<and>
   newPolicy strictEngine (lifePolicy\<lparr>value := ''Infinity''\<rparr>) =
     Normal [(''name'', JStr ''Life''), (''company'', JStr ''Met''),
             (''value'', JNum PosInf), (''premium'', JNum (Fin 50)),
             (''startDate'', JStr ''2024-01-01T00:00:00.000Z''),
             (''endDate'', JStr ''2025-01-01T00:00:00.000Z''),
             (''status'', JStr ''Active'')] \<and>
   \<not> isFinite PosInf"
  by (simp add: policy_resolver_Valid_iff policy_violated_empty newPolicy_def
      lifePolicy_def positiveNumber_def nomineesInRange_def isNaN_def js_gt_def js_le_def
      isFinite_def Number_examples toISOString_2024 toISOString_2025)

subsection \<open>One call awaited at a time\<close>

















lemma onSubmit_settled_isSubmitting:
  "inFlight st \<noteq> [] \<Longrightarrow> \<not> isSubmitting (onSubmit_settled out st)"
  by (cases "inFlight st")
     (simp_all add: onSubmit_settled_def policy_finally_def policy_catch_def emit_def Let_def
        split: completion.splits)

lemma login_onSubmit_settled_isSubmitting:
  "inFlight st \<noteq> [] \<Longrightarrow> \<not> isSubmitting (login_onSubmit_settled out st)"
  by (cases "inFlight st")
     (simp_all add: login_onSubmit_settled_def emit_def Let_def split: completion.splits)

text \<open>
  C6. The policy handler sets the flag; if a date conversion throws, the flag is false
  again when the handler returns; otherwise the flag stays set while the call is awaited
  and is false once the call has settled, whether it resolved or rejected and whether or
  not a callback threw. The login handler sets the flag when it issues the call and the
  flag is false once the call has settled, whatever the outcome.
\<close>

theorem submitting_reset_on_every_outcome:
  "(case newPolicy engine d of
      Throw e \<Rightarrow> \<not> isSubmitting (onSubmit engine d st)
    | Normal p \<Rightarrow> isSubmitting (onSubmit engine d st)
        \<and> \<not> isSubmitting (onSubmit_settled out (onSubmit engine d st))) \<and>
   isSubmitting (login_onSubmit v lst) \<and>
   \<not> isSubmitting (login_onSubmit_settled lout (login_onSubmit v lst))"
proof -
  have "inFlight (login_onSubmit v lst) \<noteq> []" "isSubmitting (login_onSubmit v lst)"
    by (simp_all add: login_onSubmit_def emit_def Let_def)
  moreover have "newPolicy engine d = Normal p \<Longrightarrow> inFlight (onSubmit engine d st) \<noteq> []
      \<and> isSubmitting (onSubmit engine d st)" for p
    by (simp add: onSubmit_Normal)
  moreover have "newPolicy engine d = Throw e \<Longrightarrow> \<not> isSubmitting (onSubmit engine d st)" for e
    by (simp add: onSubmit_def policy_finally_def)
  ultimately show ?thesis
    by (auto split: completion.splits
        intro: onSubmit_settled_isSubmitting login_onSubmit_settled_isSubmitting
        dest: onSubmit_settled_isSubmitting [THEN notE] login_onSubmit_settled_isSubmitting [THEN notE])
qed

text \<open>
  C7. When the awaited \<^verbatim>\<open>addPolicy\<close> call rejects, the handler adds exactly two effects:
  an error notification, with the message of the rejection if it has a non-empty one and
  "Failed to add policy. Please try again." otherwise, and a console entry. The values and
  messages of the form are unchanged, the flag is reset, and neither \<^verbatim>\<open>onAddPolicy\<close> nor
  \<^verbatim>\<open>onClose\<close> is among the effects added.
\<close>

theorem rejected_submission_keeps_the_form:
  assumes "addPolicy_result out = Throw (Error msg)" and "inFlight st = p # ps"
  shows "effects (onSubmit_settled out st) =
           effects st @
             [ToastError (case msg of None \<Rightarrow> ''Failed to add policy. Please try again.''
                          | Some m \<Rightarrow> if m = [] then ''Failed to add policy. Please try again.'' else m),
              ConsoleError (Error msg)]
         \<and> fieldValues (onSubmit_settled out st) = fieldValues st
         \<and> fieldErrors (onSubmit_settled out st) = fieldErrors st
         \<and> \<not> isSubmitting (onSubmit_settled out st)
         \<and> inFlight (onSubmit_settled out st) = ps
         \<and> OnClose \<notin> set (drop (length (effects st)) (effects (onSubmit_settled out st)))
         \<and> (\<forall>saved. OnAddPolicy saved \<notin> set (drop (length (effects st)) (effects (onSubmit_settled out st))))"
  using assms
  by (cases msg)
     (simp_all add: onSubmit_settled_def policy_finally_def policy_catch_def emit_def)

text \<open>
  The example of the specification: the call rejects with "duplicate policy".
\<close>

theorem rejected_submission_keeps_the_form_witness:
  "effects (policy_run strictEngine
      [Input lifePolicy [], Submit,
       Settle \<lparr>addPolicy_result = Throw (Error (Some ''duplicate policy'')),
               onAddPolicy_result = Normal (), onClose_result = Normal ()\<rparr>])
     = effects (policy_run strictEngine [Input lifePolicy [], Submit])
         @ [ToastError ''duplicate policy'', ConsoleError (Error (Some ''duplicate policy''))]
   \<and> fieldValues (policy_run strictEngine
      [Input lifePolicy [], Submit,
       Settle \<lparr>addPolicy_result = Throw (Error (Some ''duplicate policy'')),
               onAddPolicy_result = Normal (), onClose_result = Normal ()\<rparr>]) = lifePolicy
   \<and> \<not> isSubmitting (policy_run strictEngine
      [Input lifePolicy [], Submit,
       Settle \<lparr>addPolicy_result = Throw (Error (Some ''duplicate policy'')),
               onAddPolicy_result = Normal (), onClose_result = Normal ()\<rparr>])"
proof -
  let ?out = "\<lparr>addPolicy_result = Throw (Error (Some ''duplicate policy'')),
               onAddPolicy_result = Normal (), onClose_result = Normal ()\<rparr>"
  let ?st = "policy_run strictEngine [Input lifePolicy [], Submit]"
  have run: "policy_run strictEngine [Input lifePolicy [], Submit, Settle ?out]
      = onSubmit_settled ?out ?st"
    using policy_run_snoc [of strictEngine "[Input lifePolicy [], Submit]" "Settle ?out"] by simp
  have "addPolicy_result ?out = Throw (Error (Some ''duplicate policy''))"
    by simp
  moreover obtain p where "inFlight ?st = p # []"
    by (simp add: policy_run_lifePolicy_submitted)
  ultimately show ?thesis
    using rejected_submission_keeps_the_form [of ?out "Some ''duplicate policy''" ?st p "[]"]
    unfolding run by (simp add: policy_run_lifePolicy_submitted)
qed

text \<open>
  C8. A submit trigger that is delivered (the button was not rendered disabled) on values
  that violate some field of the schema stores the messages of the resolver and does
  nothing else: no effect is added, so no call is issued, nothing more is awaited, and the
  flag is left as it was. The same holds for the login form.
\<close>

theorem invalid_submit_blocks_dispatch:
  "(\<not> submitDisabled st \<and> violated formSchema policy_get (fieldValues st) \<noteq> {} \<longrightarrow>
      (\<exists>errs. policy_resolver (fieldValues st) = Invalid errs \<and> errs \<noteq> []
         \<and> policy_step engine st Submit = st\<lparr>fieldErrors := errs\<rparr>
         \<and> effects (policy_step engine st Submit) = effects st
         \<and> inFlight (policy_step engine st Submit) = inFlight st
         \<and> (isSubmitting (policy_step engine st Submit) \<longleftrightarrow> isSubmitting st))) \<and>
   (\<not> submitDisabled lst \<and> violated (login_formSchema emailPattern) login_get (fieldValues lst) \<noteq> {} \<longrightarrow>
      (\<exists>errs. login_resolver emailPattern (fieldValues lst) = Invalid errs \<and> errs \<noteq> []
         \<and> login_step emailPattern lst LoginSubmit = lst\<lparr>fieldErrors := errs\<rparr>
         \<and> effects (login_step emailPattern lst LoginSubmit) = effects lst
         \<and> inFlight (login_step emailPattern lst LoginSubmit) = inFlight lst
         \<and> (isSubmitting (login_step emailPattern lst LoginSubmit) \<longleftrightarrow> isSubmitting lst)))"
  by (simp add: submitTrigger_def handleSubmit_def policy_resolver_def login_resolver_def
      zodResolver_def z_object_issues_Nil)

text \<open>
  The example of the specification: the default values with \<^verbatim>\<open>value: "-5"\<close>, on a form
  that is not submitting.
\<close>

theorem invalid_submit_blocks_dispatch_witness:
  "\<exists>errs. policy_step strictEngine (policy_init\<lparr>fieldValues := policy_defaultValues\<lparr>value := ''-5''\<rparr>\<rparr>) Submit
       = policy_init\<lparr>fieldValues := policy_defaultValues\<lparr>value := ''-5''\<rparr>, fieldErrors := errs\<rparr>
     \<and> map_of errs Value = Some ''Value must be a positive number''
     \<and> effects (policy_step strictEngine
          (policy_init\<lparr>fieldValues := policy_defaultValues\<lparr>value := ''-5''\<rparr>\<rparr>) Submit) = []
     \<and> \<not> isSubmitting (policy_step strictEngine
          (policy_init\<lparr>fieldValues := policy_defaultValues\<lparr>value := ''-5''\<rparr>\<rparr>) Submit)"
proof -
  let ?d = "policy_defaultValues\<lparr>value := ''-5''\<rparr>"
  let ?st = "policy_init\<lparr>fieldValues := ?d\<rparr>"
  have idle: "\<not> submitDisabled ?st" "\<not> isSubmitting ?st" by (simp_all add: policy_init_def)
  have bad: "violated formSchema policy_get (fieldValues ?st) \<noteq> {}"
    using policy_field_violated(1) [of ?d] by (auto simp: policy_defaultValues_def)
  from invalid_submit_blocks_dispatch [of ?st strictEngine login_init hasAtSign] idle bad
  obtain errs where errs: "policy_resolver ?d = Invalid errs"
    "policy_step strictEngine ?st Submit = ?st\<lparr>fieldErrors := errs\<rparr>"
    "effects (policy_step strictEngine ?st Submit) = effects ?st"
    "\<not> isSubmitting (policy_step strictEngine ?st Submit)"
    by auto
  from errs(1) have "errs = z_object_issues formSchema policy_get ?d"
    by (simp add: policy_resolver_def zodResolver_Invalid_iff)
  then have "map_of errs Value = z_string_refine positiveNumber ''Value must be a positive number'' (policy_get ?d Value)"
    using map_of_z_object_issues [OF distinct_formSchema, of Value _ policy_get ?d]
    by (simp add: formSchema_def)
  then have "map_of errs Value = Some ''Value must be a positive number''"
    by (simp add: z_string_refine_def positiveNumber_def Number_examples js_gt_def)
  with errs(2,3,4) show ?thesis by (auto simp: policy_init_def)
qed




text \<open>
  C10. When the awaited \<^verbatim>\<open>login\<close> call resolves with a falsy value, the rest of the handler
  only takes the call off the awaited ones and resets the flag: it adds no effect (no
  navigation, no console entry) and leaves the error message as it is. After a whole run
  of the handler the error message is the empty string it was set to at the start.
\<close>

theorem falsy_login_is_silent:
  "login_onSubmit_settled (Normal False) (st\<lparr>inFlight := c # cs\<rparr>)
     = st\<lparr>inFlight := cs, isSubmitting := False\<rparr> \<and>
   login_onSubmit_settled (Normal False) (login_onSubmit v (st\<lparr>inFlight := []\<rparr>))
     = st\<lparr>inFlight := [], isSubmitting := False, error := [],
          effects := effects st @ [Login \<lparr>email = email v, password = password v\<rparr>]\<rparr>"
  by (simp add: login_onSubmit_settled_def login_onSubmit_def emit_def Let_def)

end
